theory Spec2Isabelle
  imports Main
begin

section \<open>JavaScript values\<close>

text \<open>
  The values the server handles: what \<^verbatim>\<open>JSON.parse\<close> can produce, \<^verbatim>\<open>undefined\<close> for a
  property that is absent, and native functions, which a property read on a plain
  object can return through the prototype chain. Numbers are the integers (the
  program's own numeric data: cent amounts, years, millisecond timestamps). Strings are
  lists of code units; \<open>length\<close> is JavaScript's \<^verbatim>\<open>.length\<close>. An object is the list of
  its own properties; a key is looked up from the front of the list.
\<close>

datatype jsval =
    JUndefined
  | JNull
  | JBool bool
  | JNum int
  | JStr string
  | JArr "jsval list"
  | JObj "(string \<times> jsval) list"
  | JFun string

datatype js_error = TypeError

text \<open>\<^verbatim>\<open>!v\<close> is true exactly on the falsy values.\<close>

fun truthy :: "jsval \<Rightarrow> bool" where
  "truthy JUndefined = False"
| "truthy JNull = False"
| "truthy (JBool b) = b"
| "truthy (JNum n) = (n \<noteq> 0)"
| "truthy (JStr s) = (s \<noteq> [])"
| "truthy (JArr xs) = True"
| "truthy (JObj ps) = True"
| "truthy (JFun f) = True"

text \<open>
  What every object literal inherits from \<^verbatim>\<open>Object.prototype\<close>: the constructor and the
  built-in methods (native functions, each with its name), and the accessor
  \<^verbatim>\<open>__proto__\<close>, which yields the prototype object itself (an object with none of the
  properties this program reads).
\<close>

definition object_prototype :: "(string \<times> jsval) list" where
  "object_prototype =
     [(''constructor'', JFun ''Object''),
      (''__defineGetter__'', JFun ''__defineGetter__''),
      (''__defineSetter__'', JFun ''__defineSetter__''),
      (''hasOwnProperty'', JFun ''hasOwnProperty''),
      (''__lookupGetter__'', JFun ''__lookupGetter__''),
      (''__lookupSetter__'', JFun ''__lookupSetter__''),
      (''isPrototypeOf'', JFun ''isPrototypeOf''),
      (''propertyIsEnumerable'', JFun ''propertyIsEnumerable''),
      (''toString'', JFun ''toString''),
      (''valueOf'', JFun ''valueOf''),
      (''__proto__'', JObj []),
      (''toLocaleString'', JFun ''toLocaleString'')]"

text \<open>
  A property read \<^verbatim>\<open>v[k]\<close> (also the destructuring \<^verbatim>\<open>const { k } = v\<close>). On
  \<^verbatim>\<open>undefined\<close> and \<^verbatim>\<open>null\<close> it throws. On an object the own properties come first,
  then the inherited ones. The properties read in this development are \<^verbatim>\<open>code\<close>,
  \<^verbatim>\<open>valid\<close>, \<^verbatim>\<open>priceId\<close>, \<^verbatim>\<open>name\<close>, \<^verbatim>\<open>description\<close>, \<^verbatim>\<open>amount\<close>, \<^verbatim>\<open>type\<close>, \<^verbatim>\<open>data\<close>,
  \<^verbatim>\<open>object\<close>, \<^verbatim>\<open>id\<close>, \<^verbatim>\<open>customer_details\<close>, \<^verbatim>\<open>email\<close>, \<^verbatim>\<open>metadata\<close> and
  \<^verbatim>\<open>packageType\<close>: of these a function has only \<^verbatim>\<open>name\<close>, and arrays and primitives
  have none.
\<close>

fun get_prop :: "jsval \<Rightarrow> string \<Rightarrow> js_error + jsval" where
  "get_prop JUndefined k = Inl TypeError"
| "get_prop JNull k = Inl TypeError"
| "get_prop (JObj ps) k =
     Inr (case map_of ps k of
            Some v \<Rightarrow> v
          | None \<Rightarrow> (case map_of object_prototype k of Some v \<Rightarrow> v | None \<Rightarrow> JUndefined))"
| "get_prop (JFun f) k = Inr (if k = ''name'' then JStr f else JUndefined)"
| "get_prop v k = Inr JUndefined"

section \<open>String operations of the standard library\<close>

definition startsWith :: "string \<Rightarrow> string \<Rightarrow> bool" where
  "startsWith s p = (take (length p) s = p)"

text \<open>\<^verbatim>\<open>s.substring(a, b)\<close>: both indices are clamped to the length and swapped if needed.\<close>

definition substring :: "string \<Rightarrow> nat \<Rightarrow> nat \<Rightarrow> string" where
  "substring s a b =
     (let a' = min a (length s); b' = min b (length s);
          lo = min a' b'; hi = max a' b'
      in take (hi - lo) (drop lo s))"

text \<open>\<^verbatim>\<open>s.slice(-n)\<close>: the last \<open>n\<close> code units, the whole string when it is shorter.\<close>

definition slice_last :: "nat \<Rightarrow> string \<Rightarrow> string" where
  "slice_last n s = drop (length s - n) s"

text \<open>\<^verbatim>\<open>toUpperCase\<close> on the ASCII letters; every other code unit of this program's
  strings (digits, the dot) is left as it is.\<close>

definition toUpperCase_char :: "char \<Rightarrow> char" where
  "toUpperCase_char c =
     (case map_of (zip ''abcdefghijklmnopqrstuvwxyz'' ''ABCDEFGHIJKLMNOPQRSTUVWXYZ'') c of
        Some u \<Rightarrow> u
      | None \<Rightarrow> c)"

definition toUpperCase :: "string \<Rightarrow> string" where
  "toUpperCase s = map toUpperCase_char s"

text \<open>Decimal rendering of an integer, as a template literal or \<^verbatim>\<open>toString()\<close> gives it.\<close>

definition digit_char :: "nat \<Rightarrow> char" where
  "digit_char d =
     (if d = 0 then CHR ''0'' else if d = 1 then CHR ''1'' else if d = 2 then CHR ''2''
      else if d = 3 then CHR ''3'' else if d = 4 then CHR ''4'' else if d = 5 then CHR ''5''
      else if d = 6 then CHR ''6'' else if d = 7 then CHR ''7'' else if d = 8 then CHR ''8''
      else CHR ''9'')"

fun string_of_nat :: "nat \<Rightarrow> string" where
  "string_of_nat n =
     (if n < 10 then [digit_char n]
      else string_of_nat (n div 10) @ [digit_char (n mod 10)])"

declare string_of_nat.simps [simp del]

definition int_toString :: "int \<Rightarrow> string" where
  "int_toString i = (if i < 0 then CHR ''-'' # string_of_nat (nat (- i)) else string_of_nat (nat i))"

section \<open>HTTP replies\<close>

datatype payload = Json jsval | Text string

record response =
  status :: nat
  payload :: payload

text \<open>\<^verbatim>\<open>res.json(v)\<close> answers 200; \<^verbatim>\<open>res.status(n).json(v)\<close> answers \<open>n\<close>.\<close>

definition res_json :: "nat \<Rightarrow> jsval \<Rightarrow> response" where
  "res_json n v = \<lparr>status = n, payload = Json v\<rparr>"

definition res_send :: "nat \<Rightarrow> string \<Rightarrow> response" where
  "res_send n s = \<lparr>status = n, payload = Text s\<rparr>"

section \<open>POST /api/validate-code\<close>

text \<open>
  The handler of \<^verbatim>\<open>server.js\<close>, on the parsed request body. It has no \<^verbatim>\<open>try\<close>: a
  \<^verbatim>\<open>TypeError\<close> (destructuring a missing body, calling \<^verbatim>\<open>startsWith\<close> on a value that
  is not a string) leaves the handler as an exception.
\<close>

definition validate_code :: "jsval \<Rightarrow> js_error + response" where
  "validate_code body =
     (case get_prop body ''code'' of
        Inl e \<Rightarrow> Inl e
      | Inr code \<Rightarrow>
          if \<not> truthy code then
            Inr (res_json 400 (JObj [(''error'', JStr ''Access code is required'')]))
          else
            (case code of
               JStr s \<Rightarrow>
                 (let isValid = (startsWith s ''WN-'' \<and> length s \<ge> 10) in
                  if isValid then
                    Inr (res_json 200 (JObj [(''valid'', JBool True),
                                             (''message'', JStr ''Access code validated successfully''),
                                             (''code'', JStr s)]))
                  else
                    Inr (res_json 400 (JObj [(''valid'', JBool False),
                                             (''error'', JStr ''Invalid access code format'')])))
             | _ \<Rightarrow> Inl TypeError))"

text \<open>A reply reports the code valid when it is a 200 whose \<^verbatim>\<open>valid\<close> field is true;
  it rejects the code when it is a 400.\<close>

definition reported_valid :: "js_error + response \<Rightarrow> bool" where
  "reported_valid r =
     (case r of
        Inl e \<Rightarrow> False
      | Inr resp \<Rightarrow>
          status resp = 200 \<and>
          (case payload resp of
             Json j \<Rightarrow> get_prop j ''valid'' = Inr (JBool True)
           | Text t \<Rightarrow> False))"

definition rejected :: "js_error + response \<Rightarrow> bool" where
  "rejected r = (case r of Inl e \<Rightarrow> False | Inr resp \<Rightarrow> status resp = 400)"

text \<open>The body the client wizard's access step sends:
  \<^verbatim>\<open>JSON.stringify({ accessCode })\<close>, as the JSON middleware parses it.\<close>

definition access_step_body :: "string \<Rightarrow> jsval" where
  "access_step_body accessCode = JObj [(''accessCode'', JStr accessCode)]"

section \<open>Properties of the validator\<close>

lemma get_prop_code_own:
  "get_prop (JObj ((''code'', v) # rest)) ''code'' = Inr v"
  by simp

lemma startsWith_WN: "startsWith s ''WN-'' = (take 3 s = ''WN-'')"
  by (simp add: startsWith_def eval_nat_numeral)

lemma validate_code_empty:
  "validate_code (JObj ((''code'', JStr []) # rest)) =
     Inr (res_json 400 (JObj [(''error'', JStr ''Access code is required'')]))"
  by (simp add: validate_code_def)

lemma validate_code_nonempty:
  "s \<noteq> [] \<Longrightarrow>
   validate_code (JObj ((''code'', JStr s) # rest)) =
     (if take 3 s = ''WN-'' \<and> 10 \<le> length s
      then Inr (res_json 200 (JObj [(''valid'', JBool True),
                                    (''message'', JStr ''Access code validated successfully''),
                                    (''code'', JStr s)]))
      else Inr (res_json 400 (JObj [(''valid'', JBool False),
                                    (''error'', JStr ''Invalid access code format'')])))"
  by (simp add: validate_code_def startsWith_WN)

lemma validate_code_accepts_iff:
  "reported_valid (validate_code (JObj ((''code'', JStr s) # rest)))
     = (take 3 s = ''WN-'' \<and> 10 \<le> length s)"
  by (cases "s = []")
     (simp_all add: validate_code_empty validate_code_nonempty reported_valid_def res_json_def)

lemma validate_code_rejects_iff:
  "rejected (validate_code (JObj ((''code'', JStr s) # rest)))
     = (\<not> (take 3 s = ''WN-'' \<and> 10 \<le> length s))"
  by (cases "s = []")
     (simp_all add: validate_code_empty validate_code_nonempty rejected_def res_json_def)

text \<open>
  C1. For every string submitted as the \<^verbatim>\<open>code\<close> of a validate-code request, the
  validator reports it valid if and only if it starts with \<^verbatim>\<open>WN-\<close> and has length at
  least 10, and rejects it (a 400) in every other case; nothing else about the string
  is looked at. The empty string is among the rejected ones: it is stopped by the
  missing-input guard, also with a 400.
\<close>

theorem validate_code_format_only:
  "reported_valid (validate_code (JObj ((''code'', JStr s) # rest)))
     = (take 3 s = ''WN-'' \<and> 10 \<le> length s)
   \<and> rejected (validate_code (JObj ((''code'', JStr s) # rest)))
     = (\<not> (take 3 s = ''WN-'' \<and> 10 \<le> length s))"
  using validate_code_accepts_iff [of s rest] validate_code_rejects_iff [of s rest]
  by simp

text \<open>
  C4 (amended). Whatever string the user types in the wizard's access step, the body
  the client serialises carries it under the key \<^verbatim>\<open>accessCode\<close>; the validate-code
  handler, whenever it is handed that body, reads the key \<^verbatim>\<open>code\<close>, finds nothing,
  and answers 400 with the missing-input error.
\<close>

theorem access_step_always_missing_code:
  "validate_code (access_step_body s) =
     Inr (res_json 400 (JObj [(''error'', JStr ''Access code is required'')]))"
  by (simp add: validate_code_def access_step_body_def object_prototype_def)

section \<open>POST /api/create-checkout-session\<close>

text \<open>The price table, an object literal.\<close>

definition PRICES :: jsval where
  "PRICES =
     JObj [(''basic'',
              JObj [(''amount'', JNum 1999),
                    (''name'', JStr ''Basic Package''),
                    (''description'', JStr ''AI Content Co-Pilot + 1 Template Style'')]),
           (''premium'',
              JObj [(''amount'', JNum 2499),
                    (''name'', JStr ''Premium Package''),
                    (''description'',
                       JStr ''AI Content Co-Pilot + 3 Template Styles + Instructions'')]),
           (''complete'',
              JObj [(''amount'', JNum 4999),
                    (''name'', JStr ''Complete Bundle''),
                    (''description'', JStr ''Everything + Future Updates + Priority Support'')])]"

text \<open>
  The key of a computed property read \<^verbatim>\<open>PRICES[priceId]\<close>: a string is its own key,
  every other value is converted to a string first (numbers below \<open>10\<^sup>2\<^sup>1\<close> in
  magnitude in plain decimal; an array as its elements joined by commas; an object
  as \<^verbatim>\<open>[object Object]\<close> unless it carries a \<^verbatim>\<open>toString\<close> of its own, which as JSON data
  cannot be called).
\<close>

fun to_property_key :: "jsval \<Rightarrow> js_error + string"
  and join_elements :: "jsval list \<Rightarrow> js_error + string" where
  "to_property_key JUndefined = Inr ''undefined''"
| "to_property_key JNull = Inr ''null''"
| "to_property_key (JBool b) = Inr (if b then ''true'' else ''false'')"
| "to_property_key (JNum n) = Inr (int_toString n)"
| "to_property_key (JStr s) = Inr s"
| "to_property_key (JArr xs) = join_elements xs"
| "to_property_key (JObj ps) =
     (if map_of ps ''toString'' = None then Inr ''[object Object]'' else Inl TypeError)"
| "to_property_key (JFun f) = Inr (''function '' @ f @ ''() { [native code] }'')"
| "join_elements [] = Inr []"
| "join_elements (x # xs) =
     (case (if x = JUndefined \<or> x = JNull then Inr [] else to_property_key x) of
        Inl e \<Rightarrow> Inl e
      | Inr s \<Rightarrow>
          if xs = [] then Inr s
          else (case join_elements xs of
                  Inl e \<Rightarrow> Inl e
                | Inr t \<Rightarrow> Inr (s @ '','' @ t)))"

text \<open>The argument of \<^verbatim>\<open>stripe.checkout.sessions.create\<close>, and what the processor
  hands back.\<close>

record line_item =
  currency :: string
  product_name :: jsval
  product_description :: jsval
  unit_amount :: jsval
  quantity :: int

record session_request =
  payment_method_types :: "string list"
  line_items :: "line_item list"
  mode :: string
  success_url :: string
  cancel_url :: string
  metadata_priceId :: jsval
  metadata_packageType :: jsval

record checkout_session =
  session_url :: jsval

text \<open>\<^verbatim>\<open>process.env.FRONTEND_URL || 'https://ai-wedding.appverta.app'\<close>\<close>

definition frontend_base :: "string option \<Rightarrow> string" where
  "frontend_base env_url =
     (case env_url of
        None \<Rightarrow> ''https://ai-wedding.appverta.app''
      | Some u \<Rightarrow> if u = [] then ''https://ai-wedding.appverta.app'' else u)"

text \<open>
  The handler. The payment processor is a parameter: \<open>Inl\<close> is a rejected call, \<open>Inr\<close>
  the created session. The result is the reply together with the list of calls made
  to the processor. The whole body is inside \<^verbatim>\<open>try\<close>: every exception becomes the 500
  reply.
\<close>

definition create_checkout_session ::
  "string option \<Rightarrow> (session_request \<Rightarrow> string + checkout_session) \<Rightarrow> jsval
     \<Rightarrow> response \<times> session_request list" where
  "create_checkout_session env_url stripe_create body =
     (let failed = res_json 500 (JObj [(''error'', JStr ''Failed to create checkout session'')])
      in
      case get_prop body ''priceId'' of
        Inl e \<Rightarrow> (failed, [])
      | Inr priceId \<Rightarrow>
          (case to_property_key priceId of
             Inl e \<Rightarrow> (failed, [])
           | Inr key \<Rightarrow>
               (case get_prop PRICES key of
                  Inl e \<Rightarrow> (failed, [])
                | Inr price \<Rightarrow>
                    if \<not> truthy price then
                      (res_json 400 (JObj [(''error'', JStr ''Invalid price ID'')]), [])
                    else
                      (case (get_prop price ''name'', get_prop price ''description'',
                             get_prop price ''amount'') of
                         (Inr name, Inr description, Inr amount) \<Rightarrow>
                           (let request =
                                  \<lparr>payment_method_types = [''card''],
                                   line_items =
                                     [\<lparr>currency = ''usd'',
                                       product_name = name,
                                       product_description = description,
                                       unit_amount = amount,
                                       quantity = 1\<rparr>],
                                   mode = ''payment'',
                                   success_url = frontend_base env_url
                                     @ ''?success=true&session_id={CHECKOUT_SESSION_ID}'',
                                   cancel_url = frontend_base env_url @ ''?canceled=true'',
                                   metadata_priceId = priceId,
                                   metadata_packageType = name\<rparr>
                            in case stripe_create request of
                                 Inl err \<Rightarrow> (failed, [request])
                               | Inr session \<Rightarrow>
                                   (res_json 200 (JObj [(''url'', session_url session)]),
                                    [request]))
                       | _ \<Rightarrow> (failed, [])))))"

text \<open>The request the handler builds for a price entry of the table.\<close>

definition price_request :: "string option \<Rightarrow> string \<Rightarrow> string \<Rightarrow> string \<Rightarrow> int \<Rightarrow> session_request" where
  "price_request env_url key name description cents =
     \<lparr>payment_method_types = [''card''],
      line_items =
        [\<lparr>currency = ''usd'',
          product_name = JStr name,
          product_description = JStr description,
          unit_amount = JNum cents,
          quantity = 1\<rparr>],
      mode = ''payment'',
      success_url = frontend_base env_url @ ''?success=true&session_id={CHECKOUT_SESSION_ID}'',
      cancel_url = frontend_base env_url @ ''?canceled=true'',
      metadata_priceId = JStr key,
      metadata_packageType = JStr name\<rparr>"

text \<open>
  What it means for the handler to charge \<open>cents\<close> for the tier \<open>key\<close>: exactly one call
  reaches the processor, its single line item has that unit amount in \<^verbatim>\<open>usd\<close> with
  quantity 1, and the reply is the session's URL when the processor succeeds (the 500
  reply when it fails).
\<close>

definition charges ::
  "string option \<Rightarrow> (session_request \<Rightarrow> string + checkout_session) \<Rightarrow> string \<Rightarrow> int \<Rightarrow> bool" where
  "charges env_url stripe_create key cents =
     (case create_checkout_session env_url stripe_create (JObj [(''priceId'', JStr key)]) of
        (reply, calls) \<Rightarrow>
          (case calls of
             [request] \<Rightarrow>
               (case line_items request of
                  [item] \<Rightarrow>
                    unit_amount item = JNum cents \<and> currency item = ''usd'' \<and> quantity item = 1
                | _ \<Rightarrow> False)
               \<and> reply =
                   (case stripe_create request of
                      Inr session \<Rightarrow> res_json 200 (JObj [(''url'', session_url session)])
                    | Inl err \<Rightarrow>
                        res_json 500 (JObj [(''error'', JStr ''Failed to create checkout session'')]))
           | _ \<Rightarrow> False))"

section \<open>Properties of checkout-session creation\<close>

lemma checkout_basic:
  "create_checkout_session env_url stripe_create (JObj [(''priceId'', JStr ''basic'')]) =
     (let request = price_request env_url ''basic'' ''Basic Package''
                      ''AI Content Co-Pilot + 1 Template Style'' 1999
      in (case stripe_create request of
            Inl err \<Rightarrow> res_json 500 (JObj [(''error'', JStr ''Failed to create checkout session'')])
          | Inr session \<Rightarrow> res_json 200 (JObj [(''url'', session_url session)]),
          [request]))"
  by (simp add: create_checkout_session_def PRICES_def price_request_def Let_def
           split: sum.splits)

lemma checkout_premium:
  "create_checkout_session env_url stripe_create (JObj [(''priceId'', JStr ''premium'')]) =
     (let request = price_request env_url ''premium'' ''Premium Package''
                      ''AI Content Co-Pilot + 3 Template Styles + Instructions'' 2499
      in (case stripe_create request of
            Inl err \<Rightarrow> res_json 500 (JObj [(''error'', JStr ''Failed to create checkout session'')])
          | Inr session \<Rightarrow> res_json 200 (JObj [(''url'', session_url session)]),
          [request]))"
  by (simp add: create_checkout_session_def PRICES_def price_request_def Let_def
           split: sum.splits)

lemma checkout_complete:
  "create_checkout_session env_url stripe_create (JObj [(''priceId'', JStr ''complete'')]) =
     (let request = price_request env_url ''complete'' ''Complete Bundle''
                      ''Everything + Future Updates + Priority Support'' 4999
      in (case stripe_create request of
            Inl err \<Rightarrow> res_json 500 (JObj [(''error'', JStr ''Failed to create checkout session'')])
          | Inr session \<Rightarrow> res_json 200 (JObj [(''url'', session_url session)]),
          [request]))"
  by (simp add: create_checkout_session_def PRICES_def price_request_def Let_def
           split: sum.splits)

text \<open>
  C5. For each of the three tiers the handler calls the processor once, with the unit
  amount of the table (1999, 2499, 4999 cents), currency \<^verbatim>\<open>usd\<close> and quantity 1, and
  when the processor succeeds it answers with the session's redirect URL.
\<close>

theorem checkout_charges_configured_amount:
  "charges env_url stripe_create ''basic'' 1999
   \<and> charges env_url stripe_create ''premium'' 2499
   \<and> charges env_url stripe_create ''complete'' 4999"
  by (simp add: charges_def checkout_basic checkout_premium checkout_complete
        price_request_def Let_def split: sum.splits)

lemma prices_own_keys:
  "key \<notin> {''basic'', ''premium'', ''complete''} \<Longrightarrow>
   get_prop PRICES key =
     Inr (case map_of object_prototype key of Some v \<Rightarrow> v | None \<Rightarrow> JUndefined)"
  by (simp add: PRICES_def)

lemma checkout_unknown_key_rejected:
  assumes "key \<notin> {''basic'', ''premium'', ''complete''}"
    and "key \<notin> fst ` set object_prototype"
  shows "create_checkout_session env_url stripe_create (JObj [(''priceId'', JStr key)]) =
           (res_json 400 (JObj [(''error'', JStr ''Invalid price ID'')]), [])"
proof -
  have "map_of object_prototype key = None"
    using assms(2) by (simp add: map_of_eq_None_iff)
  then have "get_prop PRICES key = Inr JUndefined"
    using assms(1) by (simp add: prices_own_keys)
  then show ?thesis
    by (simp add: create_checkout_session_def)
qed

text \<open>
  C2 (what the code does at a key the table inherits). The guard \<^verbatim>\<open>!PRICES[priceId]\<close>
  reads through the prototype chain: for the price id \<^verbatim>\<open>constructor\<close> it finds the
  native function \<^verbatim>\<open>Object\<close>, which is truthy, so the request is not rejected. The
  processor is called once, with the product name \<^verbatim>\<open>Object\<close> and no unit amount, and
  the reply is never the 400.
\<close>

theorem checkout_inherited_key_reaches_processor:
  "snd (create_checkout_session env_url stripe_create (JObj [(''priceId'', JStr ''constructor'')]))
     = [\<lparr>payment_method_types = [''card''],
         line_items =
           [\<lparr>currency = ''usd'',
             product_name = JStr ''Object'',
             product_description = JUndefined,
             unit_amount = JUndefined,
             quantity = 1\<rparr>],
         mode = ''payment'',
         success_url = frontend_base env_url @ ''?success=true&session_id={CHECKOUT_SESSION_ID}'',
         cancel_url = frontend_base env_url @ ''?canceled=true'',
         metadata_priceId = JStr ''constructor'',
         metadata_packageType = JStr ''Object''\<rparr>]
   \<and> status (fst (create_checkout_session env_url stripe_create
                     (JObj [(''priceId'', JStr ''constructor'')]))) \<noteq> 400"
  by (simp add: create_checkout_session_def PRICES_def object_prototype_def Let_def res_json_def
           split: sum.splits)

section \<open>The calendar year of a clock reading\<close>

text \<open>
  \<^verbatim>\<open>getFullYear\<close> as the language standard defines it. A time value is a number of
  milliseconds since the epoch; its day number is the quotient by the milliseconds of
  a day, rounded down; \<open>DayFromYear y\<close> is the day number of the first day of the year
  \<open>y\<close>; the year of a day is the last year that has begun by that day. \<open>YearFromDay\<close>
  computes it by counting whole cycles of 400, 100, 4 and 1 years from the first day
  of 1601 (day \<open>-134774\<close>); that it meets the standard's definition is proved below
  (\<open>YearFromDay_greatest\<close>).
\<close>

definition msPerDay :: int where
  "msPerDay = 86400000"

definition DayFromYear :: "int \<Rightarrow> int" where
  "DayFromYear y =
     365 * (y - 1970) + (y - 1969) div 4 - (y - 1901) div 100 + (y - 1601) div 400"

definition YearFromDay :: "int \<Rightarrow> int" where
  "YearFromDay d =
     (let n = d + 134774;
          a = n div 146097; r = n mod 146097;
          b = min (r div 36524) 3; r1 = r - b * 36524;
          c = r1 div 1461; r2 = r1 mod 1461;
          e = min (r2 div 365) 3
      in 1601 + 400 * a + 100 * b + 4 * c + e)"

definition YearFromTime :: "int \<Rightarrow> int" where
  "YearFromTime t = YearFromDay (t div msPerDay)"

section \<open>Access codes\<close>

text \<open>
  What \<^verbatim>\<open>generateAccessCode\<close> reads from its surroundings: the clock in milliseconds
  (\<^verbatim>\<open>Date.now()\<close>, and the instant of \<^verbatim>\<open>new Date()\<close> one statement earlier: one
  reading of the same clock, a time value a \<^verbatim>\<open>Date\<close> can hold), the offset of local time
  from UTC at that instant, in milliseconds, and the base-36 rendering of a random number of \<open>[0, 1)\<close>
  (\<^verbatim>\<open>Math.random().toString(36)\<close>: the string \<^verbatim>\<open>0\<close>, or \<^verbatim>\<open>0.\<close> followed by digits of
  \<^verbatim>\<open>0-9a-z\<close>, for instance \<^verbatim>\<open>0.i\<close> for one half).
\<close>

record environment =
  now_ms :: int
  utc_offset_ms :: int
  random36 :: string

text \<open>\<^verbatim>\<open>new Date().getFullYear()\<close>: the year of the local time.\<close>

definition getFullYear :: "environment \<Rightarrow> int" where
  "getFullYear env = YearFromTime (now_ms env + utc_offset_ms env)"

definition generateAccessCode :: "environment \<Rightarrow> string" where
  "generateAccessCode env =
     (let prefix = ''WN'';
          year = getFullYear env;
          random = toUpperCase (substring (random36 env) 2 8);
          timestamp = slice_last 4 (int_toString (now_ms env))
      in prefix @ ''-'' @ int_toString year @ ''-'' @ random @ ''-'' @ timestamp)"

text \<open>
  The form the specification gives an access code, following its words:
  \<^verbatim>\<open>WN-\<close>, a year of four digits, a dash, six alphanumeric characters, a dash, four
  digits.
\<close>

definition is_digit :: "char \<Rightarrow> bool" where
  "is_digit c = (c \<in> set ''0123456789'')"

definition is_alnum :: "char \<Rightarrow> bool" where
  "is_alnum c =
     (c \<in> set ''0123456789ABCDEFGHIJKLMNOPQRSTUVWXYZabcdefghijklmnopqrstuvwxyz'')"

definition access_code_form :: "string \<Rightarrow> bool" where
  "access_code_form s =
     (length s = 19
      \<and> take 3 s = ''WN-''
      \<and> list_all is_digit (take 4 (drop 3 s))
      \<and> take 1 (drop 7 s) = ''-''
      \<and> list_all is_alnum (take 6 (drop 8 s))
      \<and> take 1 (drop 14 s) = ''-''
      \<and> list_all is_digit (drop 15 s))"

section \<open>POST /api/webhook\<close>

text \<open>
  A request as the routes see it. \<open>req_path\<close> is the path of the URL, without the
  query; \<open>content_type\<close> is the header as it was sent; \<open>has_body\<close> tells whether the
  request announces a body (a length or a transfer encoding); \<open>wire_body\<close> is the body
  as it was sent; \<open>req_body\<close> is \<^verbatim>\<open>req.body\<close>, which a body parser fills in.
\<close>

datatype body_state = NotParsed | RawBody string | ParsedBody jsval

record request =
  req_method :: string
  req_path :: string
  content_type :: string
  has_body :: bool
  stripe_signature :: jsval
  wire_body :: string
  req_body :: body_state

text \<open>What the handler does besides answering, in the order it does it: the lines it
  logs and the access code it mints.\<close>

datatype effect =
    LogVerified
  | LogVerificationFailed string
  | LogPaymentSuccessful jsval
  | GenerateAccessCode string
  | LogGeneratedCode string
  | LogCustomerEmail jsval
  | LogPackageType jsval
  | LogCodeSummary string string string
  | LogUnhandledType string

text \<open>\<^verbatim>\<open>v?.k\<close> (\<^verbatim>\<open>undefined\<close> when \<open>v\<close> is \<^verbatim>\<open>undefined\<close> or \<^verbatim>\<open>null\<close>, the property
  otherwise) and \<^verbatim>\<open>a || b\<close>. On a value that is neither \<^verbatim>\<open>undefined\<close> nor \<^verbatim>\<open>null\<close>, as
  the session is once its \<^verbatim>\<open>id\<close> has been read, \<^verbatim>\<open>v?.k\<close> is the plain read \<^verbatim>\<open>v.k\<close>.\<close>

definition optional_prop :: "jsval \<Rightarrow> string \<Rightarrow> jsval" where
  "optional_prop v k =
     (case get_prop v k of Inl e \<Rightarrow> JUndefined | Inr x \<Rightarrow> x)"

definition or_else :: "jsval \<Rightarrow> jsval \<Rightarrow> jsval" where
  "or_else a b = (if truthy a then a else b)"

text \<open>
  A value interpolated in a template literal is converted to a string, by the
  conversion that also gives a property key; where the conversion throws, the template
  literal does.
\<close>

definition interpolate :: "jsval \<Rightarrow> js_error + string" where
  "interpolate v = to_property_key v"

text \<open>
  The \<^verbatim>\<open>switch\<close> on the type of a verified event. The values passed to
  \<^verbatim>\<open>console.log\<close> as arguments of their own are logged as they are; the last line of
  the first case and the line of the default case interpolate theirs, and throw when
  one cannot be converted, after everything before them has been done.
\<close>

definition handle_event :: "environment \<Rightarrow> jsval \<Rightarrow> (js_error + unit) \<times> effect list" where
  "handle_event env event =
     (case get_prop event ''type'' of
        Inl e \<Rightarrow> (Inl e, [])
      | Inr event_type \<Rightarrow>
          if event_type = JStr ''checkout.session.completed'' then
            (case get_prop event ''data'' of
               Inl e \<Rightarrow> (Inl e, [])
             | Inr data \<Rightarrow>
                 (case get_prop data ''object'' of
                    Inl e \<Rightarrow> (Inl e, [])
                  | Inr session \<Rightarrow>
                      (case get_prop session ''id'' of
                         Inl e \<Rightarrow> (Inl e, [])
                       | Inr session_id \<Rightarrow>
                           (let accessCode = generateAccessCode env;
                                customerEmail =
                                  or_else (optional_prop (optional_prop session ''customer_details'') ''email'')
                                    (JStr ''No email provided'');
                                packageType =
                                  or_else (optional_prop (optional_prop session ''metadata'') ''packageType'')
                                    (JStr ''Unknown package'');
                                logged =
                                  [LogPaymentSuccessful session_id,
                                   GenerateAccessCode accessCode,
                                   LogGeneratedCode accessCode,
                                   LogCustomerEmail customerEmail,
                                   LogPackageType packageType]
                            in case (interpolate customerEmail, interpolate packageType) of
                                 (Inr email_text, Inr package_text) \<Rightarrow>
                                   (Inr (),
                                    logged @ [LogCodeSummary accessCode email_text package_text])
                               | _ \<Rightarrow> (Inl TypeError, logged)))))
          else
            (case interpolate event_type of
               Inl e \<Rightarrow> (Inl e, [])
             | Inr type_text \<Rightarrow> (Inr (), [LogUnhandledType type_text])))"

text \<open>
  The handler. The processor's verifier \<^verbatim>\<open>stripe.webhooks.constructEvent\<close> is a
  parameter: it gets \<^verbatim>\<open>req.body\<close>, the signature header and the secret of the
  environment, and either throws (\<open>Inl\<close>, with the message) or returns the event.
\<close>

definition webhook ::
  "environment \<Rightarrow> (body_state \<Rightarrow> jsval \<Rightarrow> string option \<Rightarrow> string + jsval) \<Rightarrow> string option
     \<Rightarrow> request \<Rightarrow> (js_error + response) \<times> effect list" where
  "webhook env constructEvent secret req =
     (let sig = stripe_signature req in
      case constructEvent (req_body req) sig secret of
        Inl message \<Rightarrow>
          (Inr (res_send 400 (''Webhook Error: '' @ message)), [LogVerificationFailed message])
      | Inr event \<Rightarrow>
          (case handle_event env event of
             (Inl e, effects) \<Rightarrow> (Inl e, LogVerified # effects)
           | (Inr u, effects) \<Rightarrow>
               (Inr (res_json 200 (JObj [(''received'', JBool True)])), LogVerified # effects)))"

text \<open>The access codes a run of the handler mints.\<close>

fun minted :: "effect list \<Rightarrow> string list" where
  "minted [] = []"
| "minted (GenerateAccessCode c # es) = c # minted es"
| "minted (e # es) = minted es"

section \<open>Properties of the webhook handler\<close>

text \<open>
  C6. When the signature does not verify (the verifier throws), the handler answers
  400 with the error text and does nothing else: the only effect is the log line of
  the failure, the event switch is not entered, and no access code is minted.
\<close>

theorem webhook_bad_signature_rejected:
  assumes "constructEvent (req_body req) (stripe_signature req) secret = Inl message"
  shows "webhook env constructEvent secret req =
           (Inr (res_send 400 (''Webhook Error: '' @ message)), [LogVerificationFailed message])
         \<and> minted (snd (webhook env constructEvent secret req)) = []"
  using assms by (simp add: webhook_def)

theorem webhook_bad_signature_rejected_witness:
  "webhook \<lparr>now_ms = 1767225600123, utc_offset_ms = 0, random36 = ''0.k3j9x2m7q''\<rparr>
     (\<lambda>payload sig secret. Inl ''No signatures found matching the expected signature'')
     (Some ''whsec_test'')
     \<lparr>req_method = ''POST'', req_path = ''/api/webhook'', content_type = ''application/json'',
      has_body = True, stripe_signature = JStr ''t=1,v1=00'', wire_body = ''{}'', req_body = RawBody ''{}''\<rparr>
   = (Inr (res_send 400 (''Webhook Error: '' @ ''No signatures found matching the expected signature'')),
      [LogVerificationFailed ''No signatures found matching the expected signature''])"
proof -
  have h: "(\<lambda>payload sig secret. Inl ''No signatures found matching the expected signature'')
             (req_body \<lparr>req_method = ''POST'', req_path = ''/api/webhook'',
                        content_type = ''application/json'',
                        has_body = True, stripe_signature = JStr ''t=1,v1=00'', wire_body = ''{}'',
                        req_body = RawBody ''{}''\<rparr>)
             (stripe_signature \<lparr>req_method = ''POST'', req_path = ''/api/webhook'',
                        content_type = ''application/json'',
                        has_body = True, stripe_signature = JStr ''t=1,v1=00'', wire_body = ''{}'',
                        req_body = RawBody ''{}''\<rparr>)
             (Some ''whsec_test'')
           = (Inl ''No signatures found matching the expected signature'' :: string + jsval)"
    by simp
  show ?thesis
    using webhook_bad_signature_rejected [OF h] by simp
qed

text \<open>
  C9. A verified event of any other type is acknowledged with 200 and
  \<^verbatim>\<open>{received: true}\<close>; the handler logs the type and does nothing else: no access
  code is minted, whatever the clock and the random source hold. The type is any value
  that a template literal can render, every string among them (and the missing type,
  which renders as \<^verbatim>\<open>undefined\<close>).
\<close>

theorem webhook_other_event_ignored:
  assumes "constructEvent (req_body req) (stripe_signature req) secret = Inr event"
    and "get_prop event ''type'' = Inr event_type"
    and "event_type \<noteq> JStr ''checkout.session.completed''"
    and "interpolate event_type = Inr type_text"
  shows "webhook env constructEvent secret req =
           (Inr (res_json 200 (JObj [(''received'', JBool True)])),
            [LogVerified, LogUnhandledType type_text])
         \<and> minted (snd (webhook env constructEvent secret req)) = []"
  using assms by (simp add: webhook_def handle_event_def)

theorem webhook_other_event_ignored_witness:
  "webhook \<lparr>now_ms = 1767225600123, utc_offset_ms = 0, random36 = ''0.k3j9x2m7q''\<rparr>
     (\<lambda>payload sig secret. Inr (JObj [(''type'', JStr ''payment_intent.succeeded'')]))
     (Some ''whsec_test'')
     \<lparr>req_method = ''POST'', req_path = ''/api/webhook'', content_type = ''application/json'',
      has_body = True, stripe_signature = JStr ''t=1,v1=00'', wire_body = ''{}'', req_body = RawBody ''{}''\<rparr>
   = (Inr (res_json 200 (JObj [(''received'', JBool True)])),
      [LogVerified, LogUnhandledType ''payment_intent.succeeded''])"
proof -
  have h1: "(\<lambda>payload sig secret. Inr (JObj [(''type'', JStr ''payment_intent.succeeded'')]))
             (req_body \<lparr>req_method = ''POST'', req_path = ''/api/webhook'',
                        content_type = ''application/json'',
                        has_body = True, stripe_signature = JStr ''t=1,v1=00'', wire_body = ''{}'',
                        req_body = RawBody ''{}''\<rparr>)
             (stripe_signature \<lparr>req_method = ''POST'', req_path = ''/api/webhook'',
                        content_type = ''application/json'',
                        has_body = True, stripe_signature = JStr ''t=1,v1=00'', wire_body = ''{}'',
                        req_body = RawBody ''{}''\<rparr>)
             (Some ''whsec_test'')
           = (Inr (JObj [(''type'', JStr ''payment_intent.succeeded'')]) :: string + jsval)"
    by simp
  have h2: "get_prop (JObj [(''type'', JStr ''payment_intent.succeeded'')]) ''type''
              = Inr (JStr ''payment_intent.succeeded'')"
    by simp
  have h3: "JStr ''payment_intent.succeeded'' \<noteq> JStr ''checkout.session.completed''"
    by simp
  have h4: "interpolate (JStr ''payment_intent.succeeded'') = Inr ''payment_intent.succeeded''"
    by (simp add: interpolate_def)
  show ?thesis
    using webhook_other_event_ignored [OF h1 h2 h3 h4] by simp
qed

text \<open>Every event type that is a string other than the completed one is such a type.\<close>

lemma webhook_other_string_type_ignored:
  assumes "constructEvent (req_body req) (stripe_signature req) secret = Inr event"
    and "get_prop event ''type'' = Inr (JStr name)"
    and "name \<noteq> ''checkout.session.completed''"
  shows "webhook env constructEvent secret req =
           (Inr (res_json 200 (JObj [(''received'', JBool True)])),
            [LogVerified, LogUnhandledType name])"
  using assms by (simp add: webhook_def handle_event_def interpolate_def)

text \<open>A type that cannot be rendered (an object that carries a \<^verbatim>\<open>toString\<close> of its
  own) makes the log line of the default case throw: the handler ends with the
  exception and sends no reply of its own. Nothing is minted then either.\<close>

lemma webhook_unrenderable_type_throws:
  assumes "constructEvent (req_body req) (stripe_signature req) secret = Inr event"
    and "get_prop event ''type'' = Inr event_type"
    and "interpolate event_type = Inl e"
  shows "webhook env constructEvent secret req = (Inl e, [LogVerified])"
proof -
  have "event_type \<noteq> JStr ''checkout.session.completed''"
    using assms(3) by (auto simp: interpolate_def)
  then show ?thesis
    using assms by (simp add: webhook_def handle_event_def)
qed


text \<open>A verified completed-checkout event whose session can be read mints exactly one
  code, the one \<^verbatim>\<open>generateAccessCode\<close> returns.\<close>

lemma webhook_completed_mints_one:
  assumes "constructEvent (req_body req) (stripe_signature req) secret = Inr event"
    and "get_prop event ''type'' = Inr (JStr ''checkout.session.completed'')"
    and "get_prop event ''data'' = Inr data"
    and "get_prop data ''object'' = Inr session"
    and "get_prop session ''id'' = Inr session_id"
  shows "minted (snd (webhook env constructEvent secret req)) = [generateAccessCode env]"
  using assms by (simp add: webhook_def handle_event_def Let_def split: sum.splits)

text \<open>
  C3 (what the code does when the random number has a short base-36 rendering).
  With \<^verbatim>\<open>Math.random()\<close> returning one half, its rendering is \<^verbatim>\<open>0.i\<close> and
  \<^verbatim>\<open>substring(2, 8)\<close> has one character to take: the verified completed-checkout
  event mints exactly one code, \<^verbatim>\<open>WN-2026-I-0123\<close>, whose middle part has one
  character, not six.
\<close>

theorem webhook_mints_short_code:
  "minted (snd (webhook \<lparr>now_ms = 1767225600123, utc_offset_ms = 0, random36 = ''0.i''\<rparr>
                  (\<lambda>payload sig secret.
                     Inr (JObj [(''type'', JStr ''checkout.session.completed''),
                                (''data'', JObj [(''object'', JObj [(''id'', JStr ''cs_test_1'')])])]))
                  (Some ''whsec_test'')
                  \<lparr>req_method = ''POST'', req_path = ''/api/webhook'',
                   content_type = ''application/json'',
                   has_body = True, stripe_signature = JStr ''t=1,v1=00'', wire_body = ''{}'',
                   req_body = RawBody ''{}''\<rparr>))
     = [''WN-2026-I-0123'']
   \<and> \<not> access_code_form ''WN-2026-I-0123''"
  by (simp add: webhook_def handle_event_def interpolate_def optional_prop_def or_else_def
        object_prototype_def generateAccessCode_def getFullYear_def
        YearFromTime_def YearFromDay_def msPerDay_def Let_def substring_def
        slice_last_def toUpperCase_def toUpperCase_char_def int_toString_def
        string_of_nat.simps digit_char_def access_code_form_def)

section \<open>Properties of access codes\<close>

lemma string_of_nat_nonempty: "string_of_nat n \<noteq> []"
  by (subst string_of_nat.simps) simp

lemma string_of_nat_length_pos: "1 \<le> length (string_of_nat n)"
  using string_of_nat_nonempty [of n] by (cases "string_of_nat n") simp_all

lemma string_of_nat_step:
  "10 \<le> n \<Longrightarrow> length (string_of_nat n) = Suc (length (string_of_nat (n div 10)))"
  by (subst string_of_nat.simps) simp

lemma string_of_nat_four:
  assumes "1000 \<le> n"
  shows "4 \<le> length (string_of_nat n)"
proof -
  have a: "10 \<le> n" and b: "10 \<le> n div 10" and c: "10 \<le> n div 10 div 10"
    using assms by simp_all
  have "length (string_of_nat n) = Suc (Suc (Suc (length (string_of_nat (n div 10 div 10 div 10)))))"
    by (simp add: string_of_nat_step [OF a] string_of_nat_step [OF b] string_of_nat_step [OF c])
  then show ?thesis
    using string_of_nat_length_pos [of "n div 10 div 10 div 10"] by linarith
qed

lemma generateAccessCode_prefix: "take 3 (generateAccessCode env) = ''WN-''"
  by (simp add: generateAccessCode_def Let_def)

lemma generateAccessCode_length:
  "length (generateAccessCode env) =
     5 + length (int_toString (getFullYear env))
       + length (substring (random36 env) 2 8)
       + length (slice_last 4 (int_toString (now_ms env)))"
  by (simp add: generateAccessCode_def Let_def toUpperCase_def)

lemma int_toString_nonempty: "int_toString i \<noteq> []"
  by (simp add: int_toString_def string_of_nat_nonempty)

lemma slice_last_nonempty: "s \<noteq> [] \<Longrightarrow> slice_last 4 s \<noteq> []"
  by (cases s) (auto simp: slice_last_def)

subsection \<open>The year function meets the standard's definition\<close>

lemma int_div_sub_mult:
  fixes x :: int
  assumes "m \<noteq> 0"
  shows "(x - k * m) div m = x div m - k"
  using div_mult_self1 [of m x "- k"] assms by simp

lemma DayFromYear_shift:
  "DayFromYear (1601 + Y) = 365 * Y + Y div 4 - Y div 100 + Y div 400 - 134774"
proof -
  have a: "(Y - 368) div 4 = Y div 4 - 92"
    using int_div_sub_mult [of 4 Y 92] by simp
  have b: "(Y - 300) div 100 = Y div 100 - 3"
    using int_div_sub_mult [of 100 Y 3] by simp
  show ?thesis
    unfolding DayFromYear_def using a b by (simp add: algebra_simps)
qed

lemma div_block:
  fixes a s m :: int
  assumes "0 \<le> s" and "s < m"
  shows "(m * a + s) div m = a"
proof -
  have "m \<noteq> 0" using assms by auto
  then have "(s + a * m) div m = s div m + a" by simp
  moreover have "s div m = 0" using assms by simp
  ultimately show ?thesis by (simp add: algebra_simps)
qed

lemma year_parts:
  fixes a b c e :: int
  assumes "0 \<le> b" "b \<le> 3" "0 \<le> c" "c \<le> 24" "0 \<le> e" "e \<le> 3"
  shows "(400 * a + 100 * b + 4 * c + e) div 400 = a"
    and "(400 * a + 100 * b + 4 * c + e) div 100 = 4 * a + b"
    and "(400 * a + 100 * b + 4 * c + e) div 4 = 100 * a + 25 * b + c"
proof -
  show "(400 * a + 100 * b + 4 * c + e) div 400 = a"
    using div_block [of "100 * b + 4 * c + e" 400 a] assms by (simp add: algebra_simps)
  show "(400 * a + 100 * b + 4 * c + e) div 100 = 4 * a + b"
    using div_block [of "4 * c + e" 100 "4 * a + b"] assms by (simp add: algebra_simps)
  show "(400 * a + 100 * b + 4 * c + e) div 4 = 100 * a + 25 * b + c"
    using div_block [of "e" 4 "100 * a + 25 * b + c"] assms by (simp add: algebra_simps)
qed

lemma days_of_parts:
  fixes a b c e :: int
  assumes "0 \<le> b" "b \<le> 3" "0 \<le> c" "c \<le> 24" "0 \<le> e" "e \<le> 3"
  shows "DayFromYear (1601 + (400 * a + 100 * b + 4 * c + e))
           = 146097 * a + 36524 * b + 1461 * c + 365 * e - 134774"
  unfolding DayFromYear_shift using year_parts [OF assms, of a] by simp

text \<open>The year of a day has begun by that day, and the next year has not.\<close>

lemma YearFromDay_spec:
  "DayFromYear (YearFromDay d) \<le> d \<and> d < DayFromYear (YearFromDay d + 1)"
proof -
  define n where "n = d + 134774"
  define a where "a = n div 146097"
  define r where "r = n mod 146097"
  define q where "q = r div 36524"
  define b where "b = min q 3"
  define r1 where "r1 = r - b * 36524"
  define c where "c = r1 div 1461"
  define r2 where "r2 = r1 mod 1461"
  define p where "p = r2 div 365"
  define e where "e = min p 3"
  have year: "YearFromDay d = 1601 + (400 * a + 100 * b + 4 * c + e)"
    by (simp add: YearFromDay_def Let_def n_def a_def r_def q_def b_def r1_def c_def r2_def
          p_def e_def)
  have n_eq: "n = 146097 * a + r"
    unfolding a_def r_def by simp
  have r0: "0 \<le> r" and r_hi: "r \<le> 146096"
    unfolding r_def by simp_all
  have r_eq: "r = 36524 * q + r mod 36524"
    unfolding q_def by simp
  have rm0: "0 \<le> r mod 36524" and rm_hi: "r mod 36524 \<le> 36523"
    by simp_all
  have q0: "0 \<le> q"
    unfolding q_def using r0 by (simp add: pos_imp_zdiv_nonneg_iff)
  have "q \<le> 146096 div 36524"
    unfolding q_def using r_hi by (intro zdiv_mono1) simp_all
  then have q_hi: "q \<le> 4" by simp
  have b0: "0 \<le> b" and b_hi: "b \<le> 3"
    unfolding b_def using q0 by simp_all
  have r1_0: "0 \<le> r1" and r1_hi: "r1 \<le> 36524" and r1_lt: "b < 3 \<Longrightarrow> r1 \<le> 36523"
    unfolding r1_def b_def using r_eq rm0 rm_hi q0 q_hi r_hi by (auto simp: min_def)
  have r1_eq: "r1 = 1461 * c + r2"
    unfolding c_def r2_def by simp
  have r2_0: "0 \<le> r2" and r2_hi: "r2 \<le> 1460"
    unfolding r2_def by simp_all
  have c0: "0 \<le> c"
    unfolding c_def using r1_0 by (simp add: pos_imp_zdiv_nonneg_iff)
  have "c \<le> 36524 div 1461"
    unfolding c_def using r1_hi by (intro zdiv_mono1) simp_all
  then have c_hi: "c \<le> 24" by simp
  have r2_eq: "r2 = 365 * p + r2 mod 365"
    unfolding p_def by simp
  have r2m0: "0 \<le> r2 mod 365" and r2m_hi: "r2 mod 365 \<le> 364"
    by simp_all
  have p0: "0 \<le> p"
    unfolding p_def using r2_0 by (simp add: pos_imp_zdiv_nonneg_iff)
  have e0: "0 \<le> e" and e_hi: "e \<le> 3"
    unfolding e_def using p0 by simp_all
  have rem0: "365 * e \<le> r2" and rem_lt: "e < 3 \<Longrightarrow> r2 \<le> 365 * e + 364"
    unfolding e_def using r2_eq r2m0 r2m_hi p0 by (auto simp: min_def)
  have d_eq: "d = 146097 * a + 36524 * b + 1461 * c + r2 - 134774"
    using n_eq r1_eq unfolding n_def r1_def by simp
  have low: "DayFromYear (YearFromDay d) = 146097 * a + 36524 * b + 1461 * c + 365 * e - 134774"
    unfolding year by (rule days_of_parts [OF b0 b_hi c0 c_hi e0 e_hi])
  have lower: "DayFromYear (YearFromDay d) \<le> d"
    unfolding low using d_eq rem0 by simp
  have upper: "d < DayFromYear (YearFromDay d + 1)"
  proof -
    consider (e) "e < 3" | (c) "e = 3" "c < 24" | (b) "e = 3" "c = 24" "b < 3"
      | (a) "e = 3" "c = 24" "b = 3"
      using e_hi c_hi b_hi by linarith
    then show ?thesis
    proof cases
      case e
      have "YearFromDay d + 1 = 1601 + (400 * a + 100 * b + 4 * c + (e + 1))"
        unfolding year by simp
      moreover have "DayFromYear (1601 + (400 * a + 100 * b + 4 * c + (e + 1)))
          = 146097 * a + 36524 * b + 1461 * c + 365 * (e + 1) - 134774"
        using e e0 by (intro days_of_parts b0 b_hi c0 c_hi) simp_all
      ultimately show ?thesis
        using d_eq rem_lt [OF e] by simp
    next
      case c
      have "YearFromDay d + 1 = 1601 + (400 * a + 100 * b + 4 * (c + 1) + 0)"
        unfolding year using c by simp
      moreover have "DayFromYear (1601 + (400 * a + 100 * b + 4 * (c + 1) + 0))
          = 146097 * a + 36524 * b + 1461 * (c + 1) + 365 * 0 - 134774"
        using c c0 by (intro days_of_parts b0 b_hi) simp_all
      ultimately show ?thesis
        using d_eq r2_hi by simp
    next
      case b
      have "YearFromDay d + 1 = 1601 + (400 * a + 100 * (b + 1) + 4 * 0 + 0)"
        unfolding year using b by simp
      moreover have "DayFromYear (1601 + (400 * a + 100 * (b + 1) + 4 * 0 + 0))
          = 146097 * a + 36524 * (b + 1) + 1461 * 0 + 365 * 0 - 134774"
        using b b0 by (intro days_of_parts) simp_all
      moreover have "r2 \<le> 1459"
        using r1_lt [OF b(3)] r1_eq b(2) by simp
      ultimately show ?thesis
        using d_eq b(2) by simp
    next
      case a
      have "YearFromDay d + 1 = 1601 + (400 * (a + 1) + 100 * 0 + 4 * 0 + 0)"
        unfolding year using a by simp
      moreover have "DayFromYear (1601 + (400 * (a + 1) + 100 * 0 + 4 * 0 + 0))
          = 146097 * (a + 1) + 36524 * 0 + 1461 * 0 + 365 * 0 - 134774"
        by (intro days_of_parts) simp_all
      ultimately show ?thesis
        using d_eq r2_hi a by simp
    qed
  qed
  show ?thesis
    using lower upper by simp
qed

text \<open>The first days of the years come in order.\<close>

lemma DayFromYear_step: "DayFromYear y < DayFromYear (y + 1)"
proof -
  have a: "(y - 1969) div 4 \<le> (y + 1 - 1969) div 4"
    by (intro zdiv_mono1) simp_all
  have b: "(y + 1 - 1901) div 100 \<le> (y - 1901) div 100 + 1"
  proof -
    have "(y + 1 - 1901) div 100 \<le> (y - 1901 + 1 * 100) div 100"
      by (intro zdiv_mono1) simp_all
    then show ?thesis by simp
  qed
  have c: "(y - 1601) div 400 \<le> (y + 1 - 1601) div 400"
    by (intro zdiv_mono1) simp_all
  show ?thesis
    unfolding DayFromYear_def using a b c by simp
qed

lemma DayFromYear_mono:
  assumes "y \<le> z"
  shows "DayFromYear y \<le> DayFromYear z"
  using assms
proof (induction z rule: int_ge_induct)
  case base
  show ?case by simp
next
  case (step i)
  then show ?case
    using DayFromYear_step [of i] by simp
qed

text \<open>So the year of a day is the last year that has begun by that day.\<close>

lemma YearFromDay_greatest: "DayFromYear y \<le> d \<longleftrightarrow> y \<le> YearFromDay d"
proof
  assume begun: "DayFromYear y \<le> d"
  show "y \<le> YearFromDay d"
  proof (rule ccontr)
    assume "\<not> y \<le> YearFromDay d"
    then have "YearFromDay d + 1 \<le> y" by simp
    then have "DayFromYear (YearFromDay d + 1) \<le> DayFromYear y"
      by (rule DayFromYear_mono)
    then show False
      using YearFromDay_spec [of d] begun by simp
  qed
next
  assume "y \<le> YearFromDay d"
  then have "DayFromYear y \<le> DayFromYear (YearFromDay d)"
    by (rule DayFromYear_mono)
  then show "DayFromYear y \<le> d"
    using YearFromDay_spec [of d] by simp
qed

subsection \<open>A minted code is long enough\<close>

lemma string_of_nat_three:
  assumes "100 \<le> n"
  shows "3 \<le> length (string_of_nat n)"
proof -
  have a: "10 \<le> n" and b: "10 \<le> n div 10"
    using assms by simp_all
  have "length (string_of_nat n) = Suc (Suc (length (string_of_nat (n div 10 div 10))))"
    by (simp add: string_of_nat_step [OF a] string_of_nat_step [OF b])
  then show ?thesis
    using string_of_nat_length_pos [of "n div 10 div 10"] by linarith
qed

text \<open>A clock reading whose decimal rendering has fewer than four characters lies
  within a second of the epoch.\<close>

lemma short_stamp_near_epoch:
  assumes "length (int_toString t) < 4"
  shows "- 100 < t \<and> t < 1000"
proof -
  have "\<not> 1000 \<le> t"
  proof
    assume "1000 \<le> t"
    then have "1000 \<le> nat t" by simp
    then have "4 \<le> length (string_of_nat (nat t))"
      by (rule string_of_nat_four)
    then show False
      using assms \<open>1000 \<le> t\<close> by (simp add: int_toString_def)
  qed
  moreover have "\<not> t \<le> - 100"
  proof
    assume "t \<le> - 100"
    then have "100 \<le> nat (- t)" by simp
    then have "3 \<le> length (string_of_nat (nat (- t)))"
      by (rule string_of_nat_three)
    then show False
      using assms \<open>t \<le> - 100\<close> by (simp add: int_toString_def)
  qed
  ultimately show ?thesis by simp
qed

text \<open>Within a day and a second of the epoch the year is 1969 or 1970.\<close>

lemma year_near_epoch:
  assumes "- 100 - msPerDay < u" and "u < 1000 + msPerDay"
  shows "YearFromTime u = 1969 \<or> YearFromTime u = 1970"
proof -
  have "(- 100 - msPerDay) div msPerDay \<le> u div msPerDay"
    using assms(1) by (intro zdiv_mono1) (simp_all add: msPerDay_def)
  then have lo: "- 2 \<le> u div msPerDay"
    by (simp add: msPerDay_def)
  have "u div msPerDay \<le> (1000 + msPerDay) div msPerDay"
    using assms(2) by (intro zdiv_mono1) (simp_all add: msPerDay_def)
  then have hi: "u div msPerDay \<le> 1"
    by (simp add: msPerDay_def)
  have "DayFromYear 1969 \<le> u div msPerDay"
    using lo by (simp add: DayFromYear_def)
  then have "1969 \<le> YearFromDay (u div msPerDay)"
    by (simp add: YearFromDay_greatest)
  moreover have "\<not> DayFromYear 1971 \<le> u div msPerDay"
    using hi by (simp add: DayFromYear_def)
  then have "\<not> 1971 \<le> YearFromDay (u div msPerDay)"
    by (simp add: YearFromDay_greatest)
  ultimately show ?thesis
    unfolding YearFromTime_def by linarith
qed

lemma int_toString_1969: "int_toString 1969 = ''1969''"
  by (simp add: int_toString_def string_of_nat.simps digit_char_def)

lemma int_toString_1970: "int_toString 1970 = ''1970''"
  by (simp add: int_toString_def string_of_nat.simps digit_char_def)

lemma generateAccessCode_long_enough:
  assumes "\<bar>utc_offset_ms env\<bar> \<le> msPerDay"
  shows "10 \<le> length (generateAccessCode env)"
proof (cases "length (int_toString (now_ms env)) < 4")
  case True
  then have "- 100 < now_ms env \<and> now_ms env < 1000"
    by (rule short_stamp_near_epoch)
  then have "- 100 - msPerDay < now_ms env + utc_offset_ms env"
    and "now_ms env + utc_offset_ms env < 1000 + msPerDay"
    using assms by linarith+
  then have "getFullYear env = 1969 \<or> getFullYear env = 1970"
    unfolding getFullYear_def by (rule year_near_epoch)
  then have year: "length (int_toString (getFullYear env)) = 4"
    by (auto simp: int_toString_1969 int_toString_1970)
  have "slice_last 4 (int_toString (now_ms env)) \<noteq> []"
    by (rule slice_last_nonempty) (rule int_toString_nonempty)
  then have "1 \<le> length (slice_last 4 (int_toString (now_ms env)))"
    by (cases "slice_last 4 (int_toString (now_ms env))") simp_all
  then show ?thesis
    using year by (simp add: generateAccessCode_length)
next
  case False
  then have stamp: "length (slice_last 4 (int_toString (now_ms env))) = 4"
    by (simp add: slice_last_def)
  have "int_toString (getFullYear env) \<noteq> []"
    by (rule int_toString_nonempty)
  then have "1 \<le> length (int_toString (getFullYear env))"
    by (cases "int_toString (getFullYear env)") simp_all
  then show ?thesis
    using stamp by (simp add: generateAccessCode_length)
qed

text \<open>
  C10. Every string \<^verbatim>\<open>generateAccessCode\<close> returns is accepted by the validator:
  whatever the clock reads (and so whatever the year and the timestamp are), whatever
  the random number, and for every offset of local time from UTC of at most a day, the
  code starts with \<^verbatim>\<open>WN-\<close> and has at least 10 characters, and the validator reports
  it valid. Where the timestamp part is short the clock is within a second of the
  epoch and the year has four digits; everywhere else the timestamp part has four
  characters.
\<close>

theorem minted_code_validates:
  assumes "\<bar>utc_offset_ms env\<bar> \<le> msPerDay"
  shows "take 3 (generateAccessCode env) = ''WN-''
         \<and> 10 \<le> length (generateAccessCode env)
         \<and> reported_valid (validate_code (JObj [(''code'', JStr (generateAccessCode env))]))"
proof -
  have len: "10 \<le> length (generateAccessCode env)"
    using assms by (rule generateAccessCode_long_enough)
  have "reported_valid (validate_code (JObj ((''code'', JStr (generateAccessCode env)) # [])))
          = (take 3 (generateAccessCode env) = ''WN-'' \<and> 10 \<le> length (generateAccessCode env))"
    using validate_code_accepts_iff [of "generateAccessCode env" "[]"] by simp
  then show ?thesis
    using len generateAccessCode_prefix by simp
qed

theorem minted_code_validates_witness:
  "reported_valid (validate_code
     (JObj [(''code'', JStr (generateAccessCode
        \<lparr>now_ms = 7, utc_offset_ms = - 18000000, random36 = ''0''\<rparr>))]))"
proof -
  have h: "\<bar>utc_offset_ms \<lparr>now_ms = 7, utc_offset_ms = - 18000000, random36 = ''0''\<rparr>\<bar>
             \<le> msPerDay"
    by (simp add: msPerDay_def)
  show ?thesis
    using minted_code_validates [OF h] by simp
qed

text \<open>At that reading (seven milliseconds past the epoch, five hours west of
  Greenwich, the random number 0) the code is the shortest there is.\<close>

lemma shortest_minted_code:
  "generateAccessCode \<lparr>now_ms = 7, utc_offset_ms = - 18000000, random36 = ''0''\<rparr>
     = ''WN-1969--7''"
  by (simp add: generateAccessCode_def getFullYear_def YearFromTime_def YearFromDay_def
        msPerDay_def Let_def substring_def slice_last_def toUpperCase_def int_toString_def
        string_of_nat.simps digit_char_def)

text \<open>
  The form is met whenever the surroundings are the usual ones: a year of four digits,
  a random number whose base-36 rendering has at least six digits after \<^verbatim>\<open>0.\<close>, and
  a clock past its first second.
\<close>

definition is_base36 :: "char \<Rightarrow> bool" where
  "is_base36 c = (c \<in> set ''0123456789abcdefghijklmnopqrstuvwxyz'')"

lemma is_digit_digit_char: "is_digit (digit_char d)"
  by (simp add: is_digit_def digit_char_def)

lemma string_of_nat_digits: "list_all is_digit (string_of_nat n)"
proof (induction n rule: string_of_nat.induct)
  case (1 n)
  show ?case
  proof (cases "n < 10")
    case True
    then show ?thesis
      by (subst string_of_nat.simps) (simp add: is_digit_digit_char)
  next
    case False
    with "1" show ?thesis
      by (subst string_of_nat.simps) (simp add: is_digit_digit_char)
  qed
qed

lemma string_of_nat_one: "n < 10 \<Longrightarrow> length (string_of_nat n) = 1"
  by (subst string_of_nat.simps) simp

lemma string_of_nat_four_exact:
  assumes "1000 \<le> n" and "n \<le> 9999"
  shows "length (string_of_nat n) = 4"
proof -
  have a: "10 \<le> n" and b: "10 \<le> n div 10" and c: "10 \<le> n div 10 div 10"
    using assms by simp_all
  have d: "n div 10 div 10 div 10 < 10"
    using assms by (simp add: div_mult2_eq [symmetric])
  show ?thesis
    by (simp add: string_of_nat_step [OF a] string_of_nat_step [OF b] string_of_nat_step [OF c]
          string_of_nat_one [OF d])
qed

lemma list_all_drop: "list_all P xs \<Longrightarrow> list_all P (drop k xs)"
  by (auto simp: list_all_iff dest: in_set_dropD)

lemma list_all_take: "list_all P xs \<Longrightarrow> list_all P (take k xs)"
  by (auto simp: list_all_iff dest: in_set_takeD)

lemma toUpperCase_char_alnum: "is_base36 c \<Longrightarrow> is_alnum (toUpperCase_char c)"
  by (auto simp: is_base36_def is_alnum_def toUpperCase_char_def)

lemma toUpperCase_alnum: "list_all is_base36 s \<Longrightarrow> list_all is_alnum (toUpperCase s)"
  by (induction s) (simp_all add: toUpperCase_def toUpperCase_char_alnum)

lemma substring_2_8: "8 \<le> length s \<Longrightarrow> substring s 2 8 = take 6 (drop 2 s)"
  by (simp add: substring_def Let_def)

lemma access_code_form_parts:
  assumes "length y = 4" and "list_all is_digit y"
    and "length r = 6" and "list_all is_alnum r"
    and "length t = 4" and "list_all is_digit t"
  shows "access_code_form (''WN'' @ ''-'' @ y @ ''-'' @ r @ ''-'' @ t)"
  using assms by (simp add: access_code_form_def)

lemma generated_code_has_form:
  assumes year: "1000 \<le> getFullYear env" "getFullYear env \<le> 9999"
    and random: "8 \<le> length (random36 env)" "list_all is_base36 (drop 2 (random36 env))"
    and clock: "1000 \<le> now_ms env"
  shows "access_code_form (generateAccessCode env)"
proof -
  let ?y = "int_toString (getFullYear env)"
  let ?r = "toUpperCase (substring (random36 env) 2 8)"
  let ?t = "slice_last 4 (int_toString (now_ms env))"
  have y_eq: "?y = string_of_nat (nat (getFullYear env))"
    using year by (simp add: int_toString_def)
  have "1000 \<le> nat (getFullYear env)" and "nat (getFullYear env) \<le> 9999"
    using year by simp_all
  then have y_len: "length ?y = 4"
    unfolding y_eq by (rule string_of_nat_four_exact)
  have y_dig: "list_all is_digit ?y"
    unfolding y_eq by (rule string_of_nat_digits)
  have r_eq: "?r = toUpperCase (take 6 (drop 2 (random36 env)))"
    using random(1) by (simp add: substring_2_8)
  have r_len: "length ?r = 6"
    unfolding r_eq using random(1) by (simp add: toUpperCase_def)
  have r_aln: "list_all is_alnum ?r"
    unfolding r_eq by (intro toUpperCase_alnum list_all_take random(2))
  have t_eq: "int_toString (now_ms env) = string_of_nat (nat (now_ms env))"
    using clock by (simp add: int_toString_def)
  have "1000 \<le> nat (now_ms env)"
    using clock by simp
  then have "4 \<le> length (string_of_nat (nat (now_ms env)))"
    by (rule string_of_nat_four)
  then have t_len: "length ?t = 4"
    unfolding t_eq by (simp add: slice_last_def)
  have t_dig: "list_all is_digit ?t"
    unfolding t_eq slice_last_def by (intro list_all_drop string_of_nat_digits)
  have "generateAccessCode env = ''WN'' @ ''-'' @ ?y @ ''-'' @ ?r @ ''-'' @ ?t"
    by (simp add: generateAccessCode_def Let_def)
  then show ?thesis
    using access_code_form_parts [OF y_len y_dig r_len r_aln t_len t_dig] by simp
qed

section \<open>The order of middleware and routes\<close>

text \<open>
  An Express application is the list of what was registered on it, in the order of the
  \<^verbatim>\<open>app.use\<close> and \<^verbatim>\<open>app.post\<close> calls; a request runs through the list from the top. A
  body parser leaves a request alone when its body has been parsed already, when it
  announces no body, or when its media type is not the parser's; otherwise the JSON
  parser replaces \<^verbatim>\<open>req.body\<close> by the parsed value (and ends the request with an error
  when the body cannot be read), and the raw parser stores the bytes as they came. The
  JSON reader is a parameter: it stands for the parser's whole reading of the body at
  hand (character set, size limit, syntax), with \<open>None\<close> for a body it refuses. Bodies
  are taken to be within the raw parser's size limit and sent without content encoding.
\<close>

definition toLowerCase_char :: "char \<Rightarrow> char" where
  "toLowerCase_char c =
     (case map_of (zip ''ABCDEFGHIJKLMNOPQRSTUVWXYZ'' ''abcdefghijklmnopqrstuvwxyz'') c of
        Some l \<Rightarrow> l
      | None \<Rightarrow> c)"

definition toLowerCase :: "string \<Rightarrow> string" where
  "toLowerCase s = map toLowerCase_char s"

text \<open>
  The media type the body parsers compare: the part of the \<^verbatim>\<open>Content-Type\<close> header
  before its parameters, without the spaces around it, in lower case. So
  \<^verbatim>\<open>application/json; charset=utf-8\<close> and \<^verbatim>\<open>Application/JSON\<close> both are
  \<^verbatim>\<open>application/json\<close>. The parameters themselves are not looked at.
\<close>

definition strip_spaces :: "string \<Rightarrow> string" where
  "strip_spaces s =
     rev (dropWhile (\<lambda>c. c = CHR '' '') (rev (dropWhile (\<lambda>c. c = CHR '' '') s)))"

definition media_type :: "string \<Rightarrow> string" where
  "media_type header = toLowerCase (strip_spaces (takeWhile (\<lambda>c. c \<noteq> CHR '';'') header))"

text \<open>
  How a route is matched. Routing is not case sensitive and not strict: the letters of
  the path are compared without regard to case, and one slash at the end of the
  request's path is overlooked. A route for \<^verbatim>\<open>GET\<close> answers \<^verbatim>\<open>HEAD\<close> as well.
\<close>

definition path_matches :: "string \<Rightarrow> string \<Rightarrow> bool" where
  "path_matches route path =
     (toLowerCase path = toLowerCase route \<or> toLowerCase path = toLowerCase route @ ''/'')"

definition method_matches :: "string \<Rightarrow> string \<Rightarrow> bool" where
  "method_matches route_method m = (m = route_method \<or> (route_method = ''GET'' \<and> m = ''HEAD''))"

datatype body_parser = JsonParser | RawParser string

datatype handler_name = WebhookHandler | HealthHandler | ValidateCodeHandler | CheckoutHandler

datatype layer =
    UseCors
  | UseParser body_parser
  | Route string string "body_parser list" handler_name

datatype routed = Handled handler_name request | Preflight | ParseFailed | NotFound

definition run_parser :: "(string \<Rightarrow> jsval option) \<Rightarrow> body_parser \<Rightarrow> request \<Rightarrow> request option" where
  "run_parser json_parse p req =
     (if req_body req \<noteq> NotParsed then Some req
      else if \<not> has_body req then Some req
      else (case p of
              JsonParser \<Rightarrow>
                if media_type (content_type req) \<noteq> ''application/json'' then Some req
                else (case json_parse (wire_body req) of
                        None \<Rightarrow> None
                      | Some v \<Rightarrow> Some (req\<lparr>req_body := ParsedBody v\<rparr>))
            | RawParser parser_type \<Rightarrow>
                if media_type (content_type req) \<noteq> parser_type then Some req
                else Some (req\<lparr>req_body := RawBody (wire_body req)\<rparr>)))"

fun run_parsers :: "(string \<Rightarrow> jsval option) \<Rightarrow> body_parser list \<Rightarrow> request \<Rightarrow> request option" where
  "run_parsers json_parse [] req = Some req"
| "run_parsers json_parse (p # ps) req =
     (case run_parser json_parse p req of
        None \<Rightarrow> None
      | Some req' \<Rightarrow> run_parsers json_parse ps req')"

fun dispatch :: "(string \<Rightarrow> jsval option) \<Rightarrow> layer list \<Rightarrow> request \<Rightarrow> routed" where
  "dispatch json_parse [] req = NotFound"
| "dispatch json_parse (UseCors # ls) req =
     (if req_method req = ''OPTIONS'' then Preflight else dispatch json_parse ls req)"
| "dispatch json_parse (UseParser p # ls) req =
     (case run_parser json_parse p req of
        None \<Rightarrow> ParseFailed
      | Some req' \<Rightarrow> dispatch json_parse ls req')"
| "dispatch json_parse (Route m path ps h # ls) req =
     (if method_matches m (req_method req) \<and> path_matches path (req_path req) then
        (case run_parsers json_parse ps req of
           None \<Rightarrow> ParseFailed
         | Some req' \<Rightarrow> Handled h req')
      else dispatch json_parse ls req)"

text \<open>The registrations of \<^verbatim>\<open>server.js\<close>: the webhook route, with its raw parser, comes
  before the JSON middleware.\<close>

definition server_app :: "layer list" where
  "server_app =
     [UseCors,
      Route ''POST'' ''/api/webhook'' [RawParser ''application/json''] WebhookHandler,
      UseParser JsonParser,
      Route ''GET'' ''/api/health'' [] HealthHandler,
      Route ''POST'' ''/api/validate-code'' [] ValidateCodeHandler,
      Route ''POST'' ''/api/create-checkout-session'' [] CheckoutHandler]"

text \<open>The registrations of the second server file kept in \<^verbatim>\<open>server.js\<close> (the one that
  announces itself as running on Railway): the JSON middleware comes first, the
  webhook route last.\<close>

definition server_app_railway :: "layer list" where
  "server_app_railway =
     [UseCors,
      UseParser JsonParser,
      Route ''GET'' ''/api/health'' [] HealthHandler,
      Route ''POST'' ''/api/validate-code'' [] ValidateCodeHandler,
      Route ''POST'' ''/api/create-checkout-session'' [] CheckoutHandler,
      Route ''POST'' ''/api/webhook'' [RawParser ''application/json''] WebhookHandler]"

text \<open>A webhook delivery as the payment processor sends it: a POST of JSON text with
  the signature header.\<close>

definition webhook_delivery :: "jsval \<Rightarrow> string \<Rightarrow> request" where
  "webhook_delivery sig text =
     \<lparr>req_method = ''POST'', req_path = ''/api/webhook'', content_type = ''application/json'',
      has_body = True, stripe_signature = sig, wire_body = text, req_body = NotParsed\<rparr>"

text \<open>What reaches the verifier as the payload: the \<^verbatim>\<open>req.body\<close> of the request the
  webhook handler is called with, if it is called.\<close>

definition verifier_payload :: "routed \<Rightarrow> body_state option" where
  "verifier_payload r =
     (case r of
        Handled h req \<Rightarrow> (if h = WebhookHandler then Some (req_body req) else None)
      | _ \<Rightarrow> None)"

section \<open>Properties of the registration order\<close>

lemmas route_match_simps =
  method_matches_def path_matches_def toLowerCase_def toLowerCase_char_def

lemma media_type_json: "media_type ''application/json'' = ''application/json''"
  by (simp add: media_type_def strip_spaces_def toLowerCase_def toLowerCase_char_def)

lemma media_type_json_charset:
  "media_type ''application/json; charset=utf-8'' = ''application/json''"
  by (simp add: media_type_def strip_spaces_def toLowerCase_def toLowerCase_char_def)

lemma media_type_json_capitals:
  "media_type ''Application/JSON'' = ''application/json''"
  by (simp add: media_type_def strip_spaces_def toLowerCase_def toLowerCase_char_def)

lemma server_app_webhook_raw:
  "dispatch json_parse server_app (webhook_delivery sig text) =
     Handled WebhookHandler ((webhook_delivery sig text)\<lparr>req_body := RawBody text\<rparr>)"
  by (simp add: server_app_def webhook_delivery_def run_parser_def media_type_json
        route_match_simps)

lemma server_app_verifier_gets_raw_bytes:
  "verifier_payload (dispatch json_parse server_app (webhook_delivery sig text))
     = Some (RawBody text)"
  by (simp add: server_app_webhook_raw verifier_payload_def)

text \<open>
  C8 (what the second server file does). There the JSON middleware is registered ahead
  of the webhook route, so it runs first on a webhook delivery: the body is parsed (or
  the request is ended when it does not parse), the route's raw parser then finds the
  body already parsed and leaves it, and the verifier is handed the parsed value, never
  the bytes that were signed.
\<close>

theorem railway_webhook_body_parsed_before_verification:
  "dispatch json_parse server_app_railway (webhook_delivery sig text) =
     (case json_parse text of
        None \<Rightarrow> ParseFailed
      | Some v \<Rightarrow>
          Handled WebhookHandler ((webhook_delivery sig text)\<lparr>req_body := ParsedBody v\<rparr>))
   \<and> verifier_payload (dispatch json_parse server_app_railway (webhook_delivery sig text))
       \<noteq> Some (RawBody text)"
  by (simp add: server_app_railway_def webhook_delivery_def run_parser_def verifier_payload_def
        media_type_json route_match_simps split: option.splits)

text \<open>
  The same holds with the header the payment processor sends,
  \<^verbatim>\<open>application/json; charset=utf-8\<close>: the first server file hands the verifier the
  bytes, the second the parsed value.
\<close>

lemma server_app_webhook_raw_charset:
  "dispatch json_parse server_app
     ((webhook_delivery sig text)\<lparr>content_type := ''application/json; charset=utf-8''\<rparr>) =
   Handled WebhookHandler
     ((webhook_delivery sig text)
        \<lparr>content_type := ''application/json; charset=utf-8'', req_body := RawBody text\<rparr>)"
  by (simp add: server_app_def webhook_delivery_def run_parser_def media_type_json_charset
        route_match_simps)

lemma railway_webhook_parsed_charset:
  "dispatch json_parse server_app_railway
     ((webhook_delivery sig text)\<lparr>content_type := ''application/json; charset=utf-8''\<rparr>) =
   (case json_parse text of
      None \<Rightarrow> ParseFailed
    | Some v \<Rightarrow>
        Handled WebhookHandler
          ((webhook_delivery sig text)
             \<lparr>content_type := ''application/json; charset=utf-8'', req_body := ParsedBody v\<rparr>))"
  by (simp add: server_app_railway_def webhook_delivery_def run_parser_def
        media_type_json_charset route_match_simps split: option.splits)

text \<open>A path that differs from a route's only in case and a final slash reaches the
  route. (\<open>reads_as v\<close> is a JSON reader that reads the text at hand as \<open>v\<close>.)\<close>

definition reads_as :: "jsval \<Rightarrow> string \<Rightarrow> jsval option" where
  "reads_as v text = Some v"

lemma validate_code_route_relaxed:
  "dispatch (reads_as v) server_app
     \<lparr>req_method = ''POST'', req_path = ''/API/validate-code/'',
      content_type = ''application/json'', has_body = True, stripe_signature = JUndefined,
      wire_body = text, req_body = NotParsed\<rparr> =
   Handled ValidateCodeHandler
     \<lparr>req_method = ''POST'', req_path = ''/API/validate-code/'',
      content_type = ''application/json'', has_body = True, stripe_signature = JUndefined,
      wire_body = text, req_body = ParsedBody v\<rparr>"
  by (simp add: server_app_def run_parser_def media_type_json route_match_simps reads_as_def)

section \<open>The client wizard\<close>

text \<open>The four stages of \<^verbatim>\<open>currentStep\<close>, and the form's ten fields.\<close>

datatype stage = Access | Form | Generating | Complete

record form_data =
  bride :: string
  groom :: string
  weddingDate :: string
  venue :: string
  howMet :: string
  proposal :: string
  favoriteMemory :: string
  sharedHobbies :: string
  petNames :: string
  futurePlans :: string

text \<open>
  \<^verbatim>\<open>s.trim()\<close> removes white space from both ends; \<^verbatim>\<open>!s.trim()\<close> holds when nothing is
  left. The white space of the 8-bit range: tab, line feed, vertical tab, form feed,
  carriage return, space and the no-break space.
\<close>

definition is_white_space :: "char \<Rightarrow> bool" where
  "is_white_space c =
     (c \<in> set [CHR 0x09, CHR 0x0A, CHR 0x0B, CHR 0x0C, CHR 0x0D, CHR 0x20, CHR 0xA0])"

definition trim :: "string \<Rightarrow> string" where
  "trim s = rev (dropWhile is_white_space (rev (dropWhile is_white_space s)))"

text \<open>
  What \<^verbatim>\<open>await fetch(...)\<close> comes to: the call throws (no answer arrived), or it yields a
  response with its status and, for \<^verbatim>\<open>response.json()\<close>, the value the body parses to
  (\<open>None\<close> when it does not parse and \<^verbatim>\<open>json()\<close> throws). \<^verbatim>\<open>response.ok\<close> is true for
  the statuses 200 to 299.
\<close>

datatype fetch_result = NetworkError string | HttpResponse nat "jsval option"

definition response_ok :: "nat \<Rightarrow> bool" where
  "response_ok st = (200 \<le> st \<and> st \<le> 299)"

text \<open>What a handler of the wizard does, in order: analytics events (by name), alerts,
  requests sent, and assignments to the component's state.\<close>

datatype ui_effect =
    TrackEvent string
  | Alert string
  | PostJson string jsval
  | SetIsValidCode bool
  | SetCurrentStep stage
  | SetIsGenerating bool
  | SetGeneratedContent jsval

text \<open>\<^verbatim>\<open>missingFields.join(', ')\<close>\<close>

fun join_comma :: "string list \<Rightarrow> string" where
  "join_comma [] = []"
| "join_comma [x] = x"
| "join_comma (x # y # ys) = x @ '', '' @ join_comma (y # ys)"

definition requiredFields :: "(string \<times> (form_data \<Rightarrow> string)) list" where
  "requiredFields =
     [(''bride'', bride), (''groom'', groom), (''weddingDate'', weddingDate),
      (''venue'', venue), (''howMet'', howMet)]"

definition missingFields :: "form_data \<Rightarrow> string list" where
  "missingFields formData =
     map fst (filter (\<lambda>(name, field). trim (field formData) = []) requiredFields)"

text \<open>The body of the generation request: \<^verbatim>\<open>{ ...formData, accessCode }\<close>.\<close>

definition generation_body :: "form_data \<Rightarrow> string \<Rightarrow> jsval" where
  "generation_body formData accessCode =
     JObj [(''bride'', JStr (bride formData)), (''groom'', JStr (groom formData)),
           (''weddingDate'', JStr (weddingDate formData)), (''venue'', JStr (venue formData)),
           (''howMet'', JStr (howMet formData)), (''proposal'', JStr (proposal formData)),
           (''favoriteMemory'', JStr (favoriteMemory formData)),
           (''sharedHobbies'', JStr (sharedHobbies formData)),
           (''petNames'', JStr (petNames formData)),
           (''futurePlans'', JStr (futurePlans formData)),
           (''accessCode'', JStr accessCode)]"

text \<open>\<^verbatim>\<open>handleAccessCodeSubmit\<close>, given what the request comes to.\<close>

definition handleAccessCodeSubmit :: "string \<Rightarrow> fetch_result \<Rightarrow> ui_effect list" where
  "handleAccessCodeSubmit accessCode result =
     [TrackEvent ''access_code_attempt'',
      PostJson ''https://wedding-newspaper-backend.onrender.com/validate-code''
        (access_step_body accessCode)]
     @ (case result of
          HttpResponse st parsed \<Rightarrow>
            if response_ok st then
              [SetIsValidCode True, SetCurrentStep Form,
               TrackEvent ''access_code_success'', TrackEvent ''form_start'']
            else
              [TrackEvent ''access_code_error'',
               Alert ''Invalid access code. Please check your code and try again.'']
        | NetworkError message \<Rightarrow>
            [TrackEvent ''access_code_error'', Alert ''Network error. Please try again.''])"

text \<open>\<^verbatim>\<open>handleFormSubmit\<close>, given what the generation request comes to. Every throw inside
  \<^verbatim>\<open>try\<close> (the failed request, the \<^verbatim>\<open>Generation failed\<close> error of a response that is not
  ok, the body that does not parse) ends in the \<^verbatim>\<open>catch\<close> block; \<^verbatim>\<open>finally\<close> runs last.\<close>

definition handleFormSubmit :: "form_data \<Rightarrow> string \<Rightarrow> fetch_result \<Rightarrow> ui_effect list" where
  "handleFormSubmit formData accessCode result =
     (if missingFields formData \<noteq> [] then
        [TrackEvent ''form_validation_error'',
         Alert (''Please fill in all required fields: '' @ join_comma (missingFields formData))]
      else
        (let caught = [TrackEvent ''generation_error'',
                       Alert ''Error generating newspaper. Please try again.'',
                       SetCurrentStep Form]
         in [TrackEvent ''form_submit_attempt'', SetIsGenerating True, SetCurrentStep Generating,
             PostJson ''https://wedding-newspaper-backend.onrender.com/generate-newspaper''
               (generation_body formData accessCode)]
            @ (case result of
                 NetworkError message \<Rightarrow> caught
               | HttpResponse st parsed \<Rightarrow>
                   if response_ok st then
                     (case parsed of
                        None \<Rightarrow> caught
                      | Some content \<Rightarrow>
                          [SetGeneratedContent content, SetCurrentStep Complete,
                           TrackEvent ''form_complete'', TrackEvent ''newspaper_generated''])
                   else caught)
            @ [SetIsGenerating False]))"

text \<open>The stages a run assigns to \<^verbatim>\<open>currentStep\<close>, and the alerts it raises, in order.\<close>

fun stages :: "ui_effect list \<Rightarrow> stage list" where
  "stages [] = []"
| "stages (SetCurrentStep s # es) = s # stages es"
| "stages (e # es) = stages es"

fun alerts :: "ui_effect list \<Rightarrow> string list" where
  "alerts [] = []"
| "alerts (Alert a # es) = a # alerts es"
| "alerts (e # es) = alerts es"

text \<open>The request succeeded: a response arrived, its status is one of 200 to 299, and
  its body parsed.\<close>

definition generation_succeeded :: "fetch_result \<Rightarrow> bool" where
  "generation_succeeded result =
     (case result of
        NetworkError message \<Rightarrow> False
      | HttpResponse st parsed \<Rightarrow> response_ok st \<and> parsed \<noteq> None)"

section \<open>Properties of the wizard\<close>

lemma missingFields_empty_iff:
  "missingFields f = [] \<longleftrightarrow>
     trim (bride f) \<noteq> [] \<and> trim (groom f) \<noteq> [] \<and> trim (weddingDate f) \<noteq> []
     \<and> trim (venue f) \<noteq> [] \<and> trim (howMet f) \<noteq> []"
  by (auto simp: missingFields_def requiredFields_def)

lemma handleFormSubmit_stages:
  assumes "missingFields f = []"
  shows "stages (handleFormSubmit f code result) =
           (if generation_succeeded result then [Generating, Complete] else [Generating, Form])"
  using assms
  by (simp add: handleFormSubmit_def generation_succeeded_def Let_def
           split: fetch_result.splits option.splits)

lemma handleFormSubmit_alerts:
  assumes "missingFields f = []"
  shows "alerts (handleFormSubmit f code result) =
           (if generation_succeeded result then []
            else [''Error generating newspaper. Please try again.''])"
  using assms
  by (simp add: handleFormSubmit_def generation_succeeded_def Let_def
           split: fetch_result.splits option.splits)

text \<open>
  C7 (as the claim states it, at a 201 response and at a 200 response whose body does
  not parse). With the five required fields filled, a 201 response with a JSON body
  takes the wizard to \<^verbatim>\<open>complete\<close>, although the status is not 200; and a 200
  response whose body is not JSON takes it back to \<^verbatim>\<open>form\<close> with the alert.
\<close>

theorem form_submit_201_completes:
  "stages (handleFormSubmit
      \<lparr>bride = ''Ada'', groom = ''Alan'', weddingDate = ''2026-06-01'', venue = ''Kew'',
       howMet = ''At work'', proposal = '''', favoriteMemory = '''', sharedHobbies = '''',
       petNames = '''', futurePlans = ''''\<rparr>
      ''WN-2026-ABC123-0420'' (HttpResponse 201 (Some (JObj []))))
     = [Generating, Complete]
   \<and> stages (handleFormSubmit
      \<lparr>bride = ''Ada'', groom = ''Alan'', weddingDate = ''2026-06-01'', venue = ''Kew'',
       howMet = ''At work'', proposal = '''', favoriteMemory = '''', sharedHobbies = '''',
       petNames = '''', futurePlans = ''''\<rparr>
      ''WN-2026-ABC123-0420'' (HttpResponse 200 None))
     = [Generating, Form]"
  by (simp add: handleFormSubmit_def missingFields_def requiredFields_def trim_def
        is_white_space_def response_ok_def Let_def)

text \<open>
  C7 (amended). When the form is submitted with the five required fields non-blank,
  the stage is set to \<^verbatim>\<open>generating\<close> and then to \<^verbatim>\<open>complete\<close> if the generation
  request succeeds, that is, a response arrives with a status from 200 to 299 and a
  body that parses as JSON, and no alert is raised; in every other case (a status
  outside 200 to 299, a body that does not parse, no answer) the stage is set back to
  \<^verbatim>\<open>form\<close> and the alert is raised. So \<^verbatim>\<open>complete\<close> is never reached without a
  successful response.
\<close>

theorem form_submit_stages:
  assumes "trim (bride f) \<noteq> []" and "trim (groom f) \<noteq> []" and "trim (weddingDate f) \<noteq> []"
    and "trim (venue f) \<noteq> []" and "trim (howMet f) \<noteq> []"
  shows "stages (handleFormSubmit f code result) =
           (if generation_succeeded result then [Generating, Complete] else [Generating, Form])
         \<and> alerts (handleFormSubmit f code result) =
           (if generation_succeeded result then []
            else [''Error generating newspaper. Please try again.''])"
proof -
  have "missingFields f = []"
    using assms by (simp add: missingFields_empty_iff)
  then show ?thesis
    by (simp add: handleFormSubmit_stages handleFormSubmit_alerts)
qed

theorem form_submit_stages_witness:
  "stages (handleFormSubmit
      \<lparr>bride = ''Ada'', groom = ''Alan'', weddingDate = ''2026-06-01'', venue = ''Kew'',
       howMet = ''At work'', proposal = '''', favoriteMemory = '''', sharedHobbies = '''',
       petNames = '''', futurePlans = ''''\<rparr>
      ''WN-2026-ABC123-0420'' (HttpResponse 500 None))
     = [Generating, Form]
   \<and> alerts (handleFormSubmit
      \<lparr>bride = ''Ada'', groom = ''Alan'', weddingDate = ''2026-06-01'', venue = ''Kew'',
       howMet = ''At work'', proposal = '''', favoriteMemory = '''', sharedHobbies = '''',
       petNames = '''', futurePlans = ''''\<rparr>
      ''WN-2026-ABC123-0420'' (HttpResponse 500 None))
     = [''Error generating newspaper. Please try again.'']"
proof -
  let ?f = "\<lparr>bride = ''Ada'', groom = ''Alan'', weddingDate = ''2026-06-01'', venue = ''Kew'',
       howMet = ''At work'', proposal = '''', favoriteMemory = '''', sharedHobbies = '''',
       petNames = '''', futurePlans = ''''\<rparr>"
  have h1: "trim (bride ?f) \<noteq> []" by (simp add: trim_def is_white_space_def)
  have h2: "trim (groom ?f) \<noteq> []" by (simp add: trim_def is_white_space_def)
  have h3: "trim (weddingDate ?f) \<noteq> []" by (simp add: trim_def is_white_space_def)
  have h4: "trim (venue ?f) \<noteq> []" by (simp add: trim_def is_white_space_def)
  have h5: "trim (howMet ?f) \<noteq> []" by (simp add: trim_def is_white_space_def)
  show ?thesis
    using form_submit_stages [OF h1 h2 h3 h4 h5, of "''WN-2026-ABC123-0420''" "HttpResponse 500 None"]
    by (simp add: generation_succeeded_def response_ok_def)
qed

section \<open>The access step against the server's routes\<close>

text \<open>
  The request \<^verbatim>\<open>handleAccessCodeSubmit\<close> sends: a POST of JSON to the path
  \<^verbatim>\<open>/validate-code\<close> of the backend host. The text is that of
  \<^verbatim>\<open>JSON.stringify({ accessCode })\<close> for a code that needs no escaping (no quote, no
  backslash, no control character).
\<close>

definition json_quote :: "string \<Rightarrow> string" where
  "json_quote s = CHR 0x22 # s @ [CHR 0x22]"

definition access_step_request :: "string \<Rightarrow> request" where
  "access_step_request accessCode =
     \<lparr>req_method = ''POST'', req_path = ''/validate-code'', content_type = ''application/json'',
      has_body = True, stripe_signature = JUndefined,
      wire_body = ''{'' @ json_quote ''accessCode'' @ '':'' @ json_quote accessCode @ ''}'',
      req_body = NotParsed\<rparr>"

lemma run_parser_keeps_route:
  assumes "run_parser json_parse p req = Some req'"
  shows "req_method req' = req_method req \<and> req_path req' = req_path req"
  using assms
  by (auto simp: run_parser_def split: if_splits body_parser.splits option.splits)

text \<open>A request whose path matches the path of no route is handled by no handler.\<close>

fun route_paths :: "layer list \<Rightarrow> string list" where
  "route_paths [] = []"
| "route_paths (Route m path ps h # ls) = path # route_paths ls"
| "route_paths (l # ls) = route_paths ls"

lemma dispatch_without_route:
  assumes "list_all (\<lambda>route. \<not> path_matches route (req_path req)) (route_paths ls)"
  shows "dispatch json_parse ls req \<in> {NotFound, ParseFailed, Preflight}"
  using assms
proof (induction ls arbitrary: req)
  case Nil
  show ?case by simp
next
  case (Cons l ls)
  show ?case
  proof (cases l)
    case UseCors
    with Cons show ?thesis by simp
  next
    case (UseParser p)
    show ?thesis
    proof (cases "run_parser json_parse p req")
      case None
      with UseParser show ?thesis by simp
    next
      case (Some req')
      then have "req_path req' = req_path req"
        by (simp add: run_parser_keeps_route)
      with Cons UseParser Some show ?thesis by simp
    qed
  next
    case (Route m path ps h)
    with Cons show ?thesis by simp
  qed
qed

lemma server_app_has_no_validate_code_path:
  assumes "req_path req = ''/validate-code''"
  shows "dispatch json_parse server_app req \<in> {NotFound, ParseFailed, Preflight}"
proof -
  have "list_all (\<lambda>route. \<not> path_matches route (req_path req)) (route_paths server_app)"
    unfolding assms
    by (simp add: server_app_def path_matches_def toLowerCase_def toLowerCase_char_def)
  then show ?thesis
    by (rule dispatch_without_route)
qed


text \<open>
  C4 (as the claim states it, at the request the client sends). The client posts to
  \<^verbatim>\<open>/validate-code\<close>; the server registers the handler at \<^verbatim>\<open>/api/validate-code\<close>. With
  the JSON middleware reading the body as the object the client serialised, the
  request runs through every registration without a match: it is not handed to the
  validate-code handler at all.
\<close>

theorem access_step_request_not_routed:
  "dispatch (reads_as (access_step_body ''WN-2026-ABC123-0420'')) server_app
     (access_step_request ''WN-2026-ABC123-0420'') = NotFound"
  by (simp add: server_app_def access_step_request_def run_parser_def reads_as_def
        media_type_json route_match_simps)

section \<open>The validator of the second server file\<close>

text \<open>
  The second server file kept in \<^verbatim>\<open>server.js\<close> validates inside \<^verbatim>\<open>try\<close> (an exception
  becomes the 500 reply) and answers 200 with \<^verbatim>\<open>valid: false\<close> to a string of the wrong
  format. It reports the same strings valid.
\<close>

definition validate_code_railway :: "jsval \<Rightarrow> response" where
  "validate_code_railway body =
     (let failed = res_json 500 (JObj [(''error'', JStr ''Internal server error'')]) in
      case get_prop body ''code'' of
        Inl e \<Rightarrow> failed
      | Inr code \<Rightarrow>
          if \<not> truthy code then
            res_json 400 (JObj [(''error'', JStr ''Access code is required'')])
          else
            (case code of
               JStr s \<Rightarrow>
                 if startsWith s ''WN-'' \<and> length s \<ge> 10 then
                   res_json 200 (JObj [(''valid'', JBool True),
                                       (''message'', JStr ''Access code is valid''),
                                       (''code'', JStr s)])
                 else
                   res_json 200 (JObj [(''valid'', JBool False),
                                       (''message'', JStr ''Invalid access code format'')])
             | _ \<Rightarrow> failed))"

lemma validate_code_railway_accepts_iff:
  "reported_valid (Inr (validate_code_railway (JObj ((''code'', JStr s) # rest))))
     = (take 3 s = ''WN-'' \<and> 10 \<le> length s)"
  by (cases "s = []")
     (simp_all add: validate_code_railway_def startsWith_WN reported_valid_def res_json_def)

lemma validate_code_railway_access_step:
  "validate_code_railway (access_step_body s) =
     res_json 400 (JObj [(''error'', JStr ''Access code is required'')])"
  by (simp add: validate_code_railway_def access_step_body_def object_prototype_def)

end
